theory Spec2Isabelle
  imports Complex_Main "HOL-Library.Char_ord" "HOL-Library.List_Lexorder"
    "HOL-Library.Product_Lexorder"
begin

section \<open>Data model of \<open>sagemaker_metrics.py\<close>\<close>

text \<open>
  An instant (\<open>datetime\<close>) is a point on a linear time axis, here POSIX seconds; the code
  only groups, compares and forwards instants. A metric value (Python \<open>float\<close>) is
  idealised as a real number. Strings order as lists of characters, which is Python's
  order on the ASCII names used here.
\<close>

type_synonym datetime = int

datatype error = ValidationError | KeyError | IndexError | ClientError string

text \<open>
  What a pydantic model sees for one of its fields: the keyword is absent, its value cannot
  be read as the field's type, or it is read as a value of that type.
\<close>

datatype 'a field = Missing | Invalid | Valid 'a

subsection \<open>\<open>EndpointMetricParams\<close>\<close>

record params =
  endpoint_name :: string
  variant_name :: string
  start_time :: datetime
  end_time :: datetime
  period :: int

text \<open>
  The constructor of the pydantic model: the first four fields are required, \<open>period\<close>
  has the default 60. The class declares no validator, so nothing else is checked.
\<close>

fun required :: "'a field \<Rightarrow> error + 'a" where
  "required (Valid x) = Inr x"
| "required Missing = Inl ValidationError"
| "required Invalid = Inl ValidationError"

fun with_default :: "'a \<Rightarrow> 'a field \<Rightarrow> error + 'a" where
  "with_default d (Valid x) = Inr x"
| "with_default d Missing = Inr d"
| "with_default d Invalid = Inl ValidationError"

definition EndpointMetricParams ::
  "string field \<Rightarrow> string field \<Rightarrow> datetime field \<Rightarrow> datetime field \<Rightarrow> int field
    \<Rightarrow> error + params" where
  "EndpointMetricParams ep var st en p =
     (case required ep of Inl e \<Rightarrow> Inl e | Inr ep' \<Rightarrow>
     (case required var of Inl e \<Rightarrow> Inl e | Inr var' \<Rightarrow>
     (case required st of Inl e \<Rightarrow> Inl e | Inr st' \<Rightarrow>
     (case required en of Inl e \<Rightarrow> Inl e | Inr en' \<Rightarrow>
     (case with_default 60 p of Inl e \<Rightarrow> Inl e | Inr p' \<Rightarrow>
        Inr \<lparr>endpoint_name = ep', variant_name = var', start_time = st',
             end_time = en', period = p'\<rparr>)))))"

subsection \<open>Datapoints and metric records\<close>

text \<open>
  A datapoint dictionary of a statistics response, as \<open>UtilizationDatapoint(**datapoint_raw)\<close>
  reads it; other keys of the dictionary (such as the unit) are ignored by the model class.
\<close>

record datapoint_raw =
  raw_Timestamp :: "datetime field"
  raw_Average :: "real field"

text \<open>\<open>UtilizationDatapoint\<close> and \<open>InvocationDatapoint\<close>: both fields are required.\<close>

definition UtilizationDatapoint :: "datapoint_raw \<Rightarrow> error + (datetime \<times> real)" where
  "UtilizationDatapoint d =
     (case required (raw_Timestamp d) of Inl e \<Rightarrow> Inl e | Inr t \<Rightarrow>
     (case required (raw_Average d) of Inl e \<Rightarrow> Inl e | Inr a \<Rightarrow> Inr (t, a)))"

definition InvocationDatapoint :: "datetime field \<Rightarrow> real field \<Rightarrow> error + (datetime \<times> real)" where
  "InvocationDatapoint timestamp_raw value_raw =
     (case required timestamp_raw of Inl e \<Rightarrow> Inl e | Inr t \<Rightarrow>
     (case required value_raw of Inl e \<Rightarrow> Inl e | Inr v \<Rightarrow> Inr (t, v)))"

text \<open>
  \<open>UtilizationMetricRecord\<close> and \<open>InvocationMetricRecord\<close> differ only in the name of the
  value field (\<open>Average\<close>, \<open>Value\<close>); one record type stands for the dictionaries of both.
\<close>

record metric_record =
  rec_EndpointName :: string
  rec_Timestamp :: datetime
  rec_MetricName :: string
  rec_value :: real

subsection \<open>Requests and responses of the CloudWatch client\<close>

record metric_query =
  Namespace :: string
  MetricName :: string
  Dimensions :: "(string \<times> string) list"
  StartTime :: datetime
  EndTime :: datetime
  Period :: int

text \<open>The keyword arguments of \<open>get_metric_statistics\<close>.\<close>

record stat_request = metric_query +
  Statistics :: "string list"

text \<open>
  The keyword arguments of \<open>get_metric_data\<close>, whose \<open>MetricDataQueries\<close> list holds the
  one query described by the fields below.
\<close>

record data_request = metric_query +
  Id :: string
  Stat :: string
  ReturnData :: bool

text \<open>Response dictionaries: a key that is absent is \<open>None\<close>.\<close>

record stat_response =
  Datapoints :: "datapoint_raw list option"

record metric_data_result =
  Timestamps :: "datetime field list option"
  Values :: "real field list option"

record data_response =
  MetricDataResults :: "metric_data_result list option"

text \<open>The client: each operation returns a response or raises.\<close>

record cloudwatch =
  get_metric_statistics :: "stat_request \<Rightarrow> error + stat_response"
  get_metric_data :: "data_request \<Rightarrow> error + data_response"

subsection \<open>Effects: backend calls and log records\<close>

text \<open>
  The calls to the logger at WARNING and ERROR level are recorded, an ERROR call with the
  exception it formats; DEBUG and INFO calls are left out. The requests sent to the client
  are recorded in the order they are sent.
\<close>

datatype log_record = LogWarning string | LogError string error

record world =
  stat_calls :: "stat_request list"
  data_calls :: "data_request list"
  logged :: "log_record list"

definition warning :: "string \<Rightarrow> world \<Rightarrow> world" where
  "warning msg w = w\<lparr>logged := logged w @ [LogWarning msg]\<rparr>"

definition log_error :: "string \<Rightarrow> error \<Rightarrow> world \<Rightarrow> world" where
  "log_error msg e w = w\<lparr>logged := logged w @ [LogError msg e]\<rparr>"

subsection \<open>Data frames\<close>

text \<open>
  Every frame of the program is keyed by the columns \<open>Timestamp\<close> and \<open>EndpointName\<close>; a row
  holds its key and one cell for each further column, in column order, where \<open>None\<close> is the
  null cell (NaN). The operations of pandas that the program calls (the constructors,
  \<open>empty\<close>, \<open>pivot_table\<close>, \<open>merge\<close>) are written out below as pandas documents them.
\<close>

record row =
  Timestamp :: datetime
  EndpointName :: string
  cells :: "real option list"

record dataframe =
  columns :: "string list"
  rows :: "row list"

definition key :: "row \<Rightarrow> datetime \<times> string" where
  "key x = (Timestamp x, EndpointName x)"

text \<open>\<open>pd.DataFrame()\<close> and \<open>pd.DataFrame(columns=cs)\<close>.\<close>

definition DataFrame :: dataframe where
  "DataFrame = \<lparr>columns = [], rows = []\<rparr>"

definition DataFrame_columns :: "string list \<Rightarrow> dataframe" where
  "DataFrame_columns cs = \<lparr>columns = cs, rows = []\<rparr>"

text \<open>\<open>df.empty\<close>: one of the two axes has length 0.\<close>

definition empty :: "dataframe \<Rightarrow> bool" where
  "empty df \<longleftrightarrow> columns df = [] \<or> rows df = []"

definition key_columns :: "string list" where
  "key_columns = [''Timestamp'', ''EndpointName'']"

definition metric_columns :: "dataframe \<Rightarrow> string list" where
  "metric_columns df = filter (\<lambda>c. c \<notin> set key_columns) (columns df)"


text \<open>
  \<open>pivot_table(index=['Timestamp', 'EndpointName'], columns='MetricName', values=...)\<close>
  followed by \<open>reset_index()\<close>, with pandas' defaults: the records are grouped by key and
  metric name, each group is aggregated by its mean, the keys and the metric names that
  occur are sorted, and a key without a record for a metric has a null cell there.
\<close>

definition mean :: "real list \<Rightarrow> real" where
  "mean vs = sum_list vs / real (length vs)"

definition group_values :: "metric_record list \<Rightarrow> datetime \<times> string \<Rightarrow> string \<Rightarrow> real list" where
  "group_values data k c =
     map rec_value
       (filter (\<lambda>r. (rec_Timestamp r, rec_EndpointName r) = k \<and> rec_MetricName r = c) data)"

definition pivot_cell :: "metric_record list \<Rightarrow> datetime \<times> string \<Rightarrow> string \<Rightarrow> real option" where
  "pivot_cell data k c =
     (case group_values data k c of [] \<Rightarrow> None | v # vs \<Rightarrow> Some (mean (v # vs)))"

definition pivot_table :: "metric_record list \<Rightarrow> dataframe" where
  "pivot_table data =
     (let keys = sort (remdups (map (\<lambda>r. (rec_Timestamp r, rec_EndpointName r)) data));
          names = sort (remdups (map rec_MetricName data))
      in \<lparr>columns = key_columns @ names,
          rows = map (\<lambda>k. \<lparr>Timestamp = fst k, EndpointName = snd k,
                           cells = map (pivot_cell data k) names\<rparr>) keys\<rparr>)"

text \<open>
  \<open>pd.merge(left, right, on=['Timestamp', 'EndpointName'], how='outer')\<close>: a key column
  that one of the frames lacks raises; the keys of both frames are sorted; each left row is
  paired with each right row of the same key, and a key that one side lacks gets nulls in
  that side's columns; a further column name that both frames carry is suffixed.
\<close>

definition side_cells :: "dataframe \<Rightarrow> datetime \<times> string \<Rightarrow> real option list list" where
  "side_cells df k =
     (case filter (\<lambda>x. key x = k) (rows df) of
        [] \<Rightarrow> [replicate (length (metric_columns df)) None]
      | x # xs \<Rightarrow> map cells (x # xs))"

definition merge_rows :: "dataframe \<Rightarrow> dataframe \<Rightarrow> datetime \<times> string \<Rightarrow> row list" where
  "merge_rows left right k =
     concat (map (\<lambda>a. map (\<lambda>b. \<lparr>Timestamp = fst k, EndpointName = snd k, cells = a @ b\<rparr>)
                          (side_cells right k))
                 (side_cells left k))"

definition join_keys :: "dataframe \<Rightarrow> dataframe \<Rightarrow> (datetime \<times> string) list" where
  "join_keys left right = sort (remdups (map key (rows left) @ map key (rows right)))"

definition merge_outer :: "dataframe \<Rightarrow> dataframe \<Rightarrow> error + dataframe" where
  "merge_outer left right =
     (if \<not> set key_columns \<subseteq> set (columns left) \<or> \<not> set key_columns \<subseteq> set (columns right)
      then Inl KeyError
      else
        let lc = metric_columns left; rc = metric_columns right;
            keys = join_keys left right
        in Inr \<lparr>columns = key_columns
                    @ map (\<lambda>c. if c \<in> set rc then c @ ''_x'' else c) lc
                    @ map (\<lambda>c. if c \<in> set lc then c @ ''_y'' else c) rc,
                rows = concat (map (merge_rows left right) keys)\<rparr>)"

section \<open>The collectors\<close>

subsection \<open>\<open>_get_endpoint_utilization_metrics\<close>\<close>

definition metrics :: "string list" where
  "metrics = [''CPUUtilization'', ''MemoryUtilization'', ''DiskUtilization'',
              ''InferenceLatency'', ''GPUUtilization'', ''GPUMemoryUtilization'']"

definition dimensions :: "string \<Rightarrow> string \<Rightarrow> (string \<times> string) list" where
  "dimensions endpoint variant = [(''EndpointName'', endpoint), (''VariantName'', variant)]"

definition utilization_request ::
  "string \<Rightarrow> string \<Rightarrow> datetime \<Rightarrow> datetime \<Rightarrow> int \<Rightarrow> string \<Rightarrow> stat_request" where
  "utilization_request ep var st en p metric_name =
     \<lparr>Namespace = ''/aws/sagemaker/Endpoints'', MetricName = metric_name,
      Dimensions = dimensions ep var, StartTime = st, EndTime = en, Period = p,
      Statistics = [''Average'']\<rparr>"

text \<open>The inner loop over \<open>response['Datapoints']\<close>: the first invalid datapoint raises.\<close>

fun utilization_records :: "string \<Rightarrow> string \<Rightarrow> datapoint_raw list \<Rightarrow> error + metric_record list" where
  "utilization_records ep metric_name [] = Inr []"
| "utilization_records ep metric_name (d # ds) =
     (case UtilizationDatapoint d of
        Inl e \<Rightarrow> Inl e
      | Inr (t, a) \<Rightarrow>
          (case utilization_records ep metric_name ds of
             Inl e \<Rightarrow> Inl e
           | Inr rs \<Rightarrow> Inr (\<lparr>rec_EndpointName = ep, rec_Timestamp = t,
                            rec_MetricName = metric_name, rec_value = a\<rparr> # rs)))"

text \<open>The loop over the metric names, with the list \<open>data\<close> it appends to.\<close>

fun utilization_loop ::
  "cloudwatch \<Rightarrow> string \<Rightarrow> string \<Rightarrow> datetime \<Rightarrow> datetime \<Rightarrow> int \<Rightarrow> string list
    \<Rightarrow> metric_record list \<Rightarrow> world \<Rightarrow> world \<times> (error + metric_record list)" where
  "utilization_loop client ep var st en p [] data w = (w, Inr data)"
| "utilization_loop client ep var st en p (metric_name # ms) data w =
     (let request = utilization_request ep var st en p metric_name;
          w' = w\<lparr>stat_calls := stat_calls w @ [request]\<rparr>
      in case get_metric_statistics client request of
           Inl e \<Rightarrow> (w', Inl e)
         | Inr response \<Rightarrow>
             (case Datapoints response of
                None \<Rightarrow> (w', Inl KeyError)
              | Some dps \<Rightarrow>
                  (case utilization_records ep metric_name dps of
                     Inl e \<Rightarrow> (w', Inl e)
                   | Inr recs \<Rightarrow> utilization_loop client ep var st en p ms (data @ recs) w')))"

definition get_endpoint_utilization_metrics ::
  "cloudwatch \<Rightarrow> string \<Rightarrow> string \<Rightarrow> datetime \<Rightarrow> datetime \<Rightarrow> int \<Rightarrow> world
    \<Rightarrow> world \<times> (error + dataframe)" where
  "get_endpoint_utilization_metrics client ep var st en p w =
     (case utilization_loop client ep var st en p metrics [] w of
        (w', Inl e) \<Rightarrow> (w', Inl e)
      | (w', Inr data) \<Rightarrow>
          if data = []
          then (warning (''No utilization datapoints found for '' @ ep @ '' / '' @ var) w',
                Inr (DataFrame_columns (key_columns @ metrics)))
          else (w', Inr (pivot_table data)))"

subsection \<open>\<open>_get_endpoint_invocation_metrics\<close>\<close>

definition metric_names :: "string list" where
  "metric_names = [''Invocations'', ''Invocation4XXErrors'', ''Invocation5XXErrors'',
                   ''ModelLatency'', ''InvocationsPerInstance'']"

definition invocation_request ::
  "string \<Rightarrow> string \<Rightarrow> datetime \<Rightarrow> datetime \<Rightarrow> int \<Rightarrow> string \<Rightarrow> data_request" where
  "invocation_request ep var st en p metric_name =
     (let stat = (if metric_name = ''ModelLatency'' then ''Average'' else ''Sum'')
      in \<lparr>Namespace = ''AWS/SageMaker'', MetricName = metric_name,
          Dimensions = dimensions ep var, StartTime = st, EndTime = en, Period = p,
          Id = ''metric_'' @ metric_name, Stat = stat, ReturnData = True\<rparr>)"

text \<open>The loop over \<open>zip(timestamps, values)\<close>.\<close>

fun invocation_records ::
  "string \<Rightarrow> string \<Rightarrow> (datetime field \<times> real field) list \<Rightarrow> error + metric_record list" where
  "invocation_records ep metric_name [] = Inr []"
| "invocation_records ep metric_name ((timestamp_raw, value_raw) # ds) =
     (case InvocationDatapoint timestamp_raw value_raw of
        Inl e \<Rightarrow> Inl e
      | Inr (t, v) \<Rightarrow>
          (case invocation_records ep metric_name ds of
             Inl e \<Rightarrow> Inl e
           | Inr rs \<Rightarrow> Inr (\<lparr>rec_EndpointName = ep, rec_Timestamp = t,
                            rec_MetricName = metric_name, rec_value = v\<rparr> # rs)))"

text \<open>
  \<open>response['MetricDataResults'][0]['Timestamps']\<close> and \<open>...[0]['Values']\<close>, zipped and
  validated: the datapoints one response contributes.
\<close>

definition response_records :: "string \<Rightarrow> string \<Rightarrow> data_response \<Rightarrow> error + metric_record list" where
  "response_records ep metric_name response =
     (case MetricDataResults response of
        None \<Rightarrow> Inl KeyError
      | Some [] \<Rightarrow> Inl IndexError
      | Some (result # _) \<Rightarrow>
          (case Timestamps result of
             None \<Rightarrow> Inl KeyError
           | Some timestamps \<Rightarrow>
               (case Values result of
                  None \<Rightarrow> Inl KeyError
                | Some values \<Rightarrow> invocation_records ep metric_name (zip timestamps values))))"

fun invocation_loop ::
  "cloudwatch \<Rightarrow> string \<Rightarrow> string \<Rightarrow> datetime \<Rightarrow> datetime \<Rightarrow> int \<Rightarrow> string list
    \<Rightarrow> metric_record list \<Rightarrow> world \<Rightarrow> world \<times> (error + metric_record list)" where
  "invocation_loop client ep var st en p [] data w = (w, Inr data)"
| "invocation_loop client ep var st en p (metric_name # ms) data w =
     (let request = invocation_request ep var st en p metric_name;
          w' = w\<lparr>data_calls := data_calls w @ [request]\<rparr>
      in case get_metric_data client request of
           Inl e \<Rightarrow> (w', Inl e)
         | Inr response \<Rightarrow>
             (case response_records ep metric_name response of
                Inl e \<Rightarrow> (w', Inl e)
              | Inr recs \<Rightarrow> invocation_loop client ep var st en p ms (data @ recs) w'))"

definition get_endpoint_invocation_metrics ::
  "cloudwatch \<Rightarrow> string \<Rightarrow> string \<Rightarrow> datetime \<Rightarrow> datetime \<Rightarrow> int \<Rightarrow> world
    \<Rightarrow> world \<times> (error + dataframe)" where
  "get_endpoint_invocation_metrics client ep var st en p w =
     (case invocation_loop client ep var st en p metric_names [] w of
        (w', Inl e) \<Rightarrow> (w', Inl e)
      | (w', Inr data) \<Rightarrow>
          if data = []
          then (warning (''No invocation datapoints found for '' @ ep @ '' / '' @ var) w',
                Inr (DataFrame_columns (key_columns @ metric_names)))
          else (w', Inr (pivot_table data)))"

section \<open>\<open>get_endpoint_metrics\<close>\<close>

text \<open>
  The branches on the two frames (the part of the \<open>try\<close> block after both collectors have
  returned): the frame that is returned or the exception of the merge.
\<close>

definition reconcile :: "string \<Rightarrow> dataframe \<Rightarrow> dataframe \<Rightarrow> world \<Rightarrow> world \<times> (error + dataframe)" where
  "reconcile ep utilization_metrics_df invocation_metrics_df w =
     (if empty utilization_metrics_df \<and> empty invocation_metrics_df
      then (warning (''No utilization or invocation metrics found for endpoint='' @ ep) w,
            Inr DataFrame)
      else if empty utilization_metrics_df
      then (warning (''No utilization metrics found for endpoint='' @ ep
                       @ '', returning only invocation metrics.'') w,
            Inr invocation_metrics_df)
      else if empty invocation_metrics_df
      then (warning (''No invocation metrics found for endpoint='' @ ep
                       @ '', returning only utilization metrics.'') w,
            Inr utilization_metrics_df)
      else (w, merge_outer utilization_metrics_df invocation_metrics_df))"

text \<open>The \<open>except Exception\<close> handler: log the exception, return \<open>None\<close>.\<close>

definition handler :: "params \<Rightarrow> error \<Rightarrow> world \<Rightarrow> world \<times> dataframe option" where
  "handler ps e w =
     (log_error (''get_endpoint_metrics, exception occured while retrieving metrics for ''
                   @ endpoint_name ps) e w,
      None)"

definition get_endpoint_metrics :: "cloudwatch \<Rightarrow> params \<Rightarrow> world \<Rightarrow> world \<times> dataframe option" where
  "get_endpoint_metrics client ps w =
     (case get_endpoint_utilization_metrics client (endpoint_name ps) (variant_name ps)
             (start_time ps) (end_time ps) (period ps) w of
        (w1, Inl e) \<Rightarrow> handler ps e w1
      | (w1, Inr utilization_metrics_df) \<Rightarrow>
          (case get_endpoint_invocation_metrics client (endpoint_name ps) (variant_name ps)
                  (start_time ps) (end_time ps) (period ps) w1 of
             (w2, Inl e) \<Rightarrow> handler ps e w2
           | (w2, Inr invocation_metrics_df) \<Rightarrow>
               (case reconcile (endpoint_name ps) utilization_metrics_df invocation_metrics_df w2 of
                  (w3, Inl e) \<Rightarrow> handler ps e w3
                | (w3, Inr endpoint_metrics_df) \<Rightarrow> (w3, Some endpoint_metrics_df))))"

section \<open>Views of a data-query response\<close>

text \<open>
  Two transformations of a response, used to state what the invocation collector reads of
  it: the response cut down to its first result, and the response whose first result has
  its two sequences cut to their common length.
\<close>

definition first_result :: "data_response \<Rightarrow> data_response" where
  "first_result response =
     response\<lparr>MetricDataResults := map_option (take 1) (MetricDataResults response)\<rparr>"


definition with_data ::
  "(data_response \<Rightarrow> data_response) \<Rightarrow> cloudwatch \<Rightarrow> cloudwatch" where
  "with_data f client =
     client\<lparr>get_metric_data :=
       (\<lambda>q. case get_metric_data client q of Inl e \<Rightarrow> Inl e | Inr r \<Rightarrow> Inr (f r))\<rparr>"

text \<open>What the collector obtains from one call of \<open>get_metric_data\<close>.\<close>

definition read_data ::
  "string \<Rightarrow> string \<Rightarrow> error + data_response \<Rightarrow> error + metric_record list" where
  "read_data ep metric_name answer =
     (case answer of Inl e \<Rightarrow> Inl e | Inr r \<Rightarrow> response_records ep metric_name r)"

section \<open>Backends that answer with valid datapoints\<close>



section \<open>Example inputs\<close>

definition w0 :: world where
  "w0 = \<lparr>stat_calls = [], data_calls = [], logged = []\<rparr>"

definition p0 :: params where
  "p0 = \<lparr>endpoint_name = ''ep-1'', variant_name = ''v1'', start_time = 0, end_time = 300,
         period = 60\<rparr>"

text \<open>A backend without datapoints for any metric.\<close>

definition quiet :: cloudwatch where
  "quiet =
     \<lparr>get_metric_statistics = (\<lambda>q. Inr \<lparr>Datapoints = Some []\<rparr>),
      get_metric_data = (\<lambda>q. Inr \<lparr>MetricDataResults =
        Some [\<lparr>Timestamps = Some [], Values = Some []\<rparr>]\<rparr>)\<rparr>"

text \<open>
  The end-to-end example of the specification: one CPUUtilization datapoint at second 60
  with average 42, one Invocations datapoint at second 120 with sum 10.
\<close>

definition example_statistics :: "stat_request \<Rightarrow> error + stat_response" where
  "example_statistics q =
     Inr \<lparr>Datapoints = Some (if MetricName q = ''CPUUtilization''
                               then [\<lparr>raw_Timestamp = Valid 60, raw_Average = Valid 42\<rparr>]
                               else [])\<rparr>"

definition example_data :: "data_request \<Rightarrow> error + data_response" where
  "example_data q =
     Inr \<lparr>MetricDataResults = Some [if MetricName q = ''Invocations''
                                     then \<lparr>Timestamps = Some [Valid 120], Values = Some [Valid 10]\<rparr>
                                     else \<lparr>Timestamps = Some [], Values = Some []\<rparr>]\<rparr>"

definition example :: cloudwatch where
  "example = \<lparr>get_metric_statistics = example_statistics, get_metric_data = example_data\<rparr>"

text \<open>Backends on which one of the two operations has no data, or raises.\<close>

definition only_utilization :: cloudwatch where
  "only_utilization =
     \<lparr>get_metric_statistics = example_statistics, get_metric_data = get_metric_data quiet\<rparr>"

definition only_invocation :: cloudwatch where
  "only_invocation =
     \<lparr>get_metric_statistics = get_metric_statistics quiet, get_metric_data = example_data\<rparr>"




text \<open>The two frames of the example.\<close>

definition example_utilization_df :: dataframe where
  "example_utilization_df =
     \<lparr>columns = [''Timestamp'', ''EndpointName'', ''CPUUtilization''],
      rows = [\<lparr>Timestamp = 60, EndpointName = ''ep-1'', cells = [Some 42]\<rparr>]\<rparr>"

definition example_invocation_df :: dataframe where
  "example_invocation_df =
     \<lparr>columns = [''Timestamp'', ''EndpointName'', ''Invocations''],
      rows = [\<lparr>Timestamp = 120, EndpointName = ''ep-1'', cells = [Some 10]\<rparr>]\<rparr>"

text \<open>Data-query responses with no result, with a second result, and with sequences of
  different lengths (two timestamps, one value).\<close>

definition no_results :: cloudwatch where
  "no_results =
     \<lparr>get_metric_statistics = example_statistics,
      get_metric_data = (\<lambda>q. Inr \<lparr>MetricDataResults = Some []\<rparr>)\<rparr>"

definition second_result :: cloudwatch where
  "second_result =
     \<lparr>get_metric_statistics = example_statistics,
      get_metric_data = (\<lambda>q. case example_data q of
         Inl e \<Rightarrow> Inl e
       | Inr r \<Rightarrow> Inr (r\<lparr>MetricDataResults :=
           map_option (\<lambda>rs. rs @ [\<lparr>Timestamps = Some [Valid 180, Invalid], Values = None\<rparr>])
             (MetricDataResults r)\<rparr>))\<rparr>"






section \<open>Properties\<close>

subsection \<open>The requests a loop sends\<close>

lemma utilization_loop_world:
  "\<exists>n. (ms \<noteq> [] \<longrightarrow> 0 < n) \<and>
       fst (utilization_loop client ep var st en p ms data w) =
         w\<lparr>stat_calls := stat_calls w @ map (utilization_request ep var st en p) (take n ms)\<rparr>"
proof (induction ms arbitrary: data w)
  case Nil
  show ?case by simp
next
  case (Cons m ms)
  let ?w' = "w\<lparr>stat_calls := stat_calls w @ [utilization_request ep var st en p m]\<rparr>"
  have stop: "\<exists>n. (m # ms \<noteq> [] \<longrightarrow> 0 < n) \<and> ?w' = w\<lparr>stat_calls := stat_calls w
                 @ map (utilization_request ep var st en p) (take n (m # ms))\<rparr>"
    by (rule exI [of _ 1]) simp
  show ?case
  proof (cases "get_metric_statistics client (utilization_request ep var st en p m)")
    case (Inl e)
    then show ?thesis using stop by (simp add: Let_def)
  next
    case (Inr response)
    show ?thesis
    proof (cases "Datapoints response")
      case None
      then show ?thesis using Inr stop by (simp add: Let_def)
    next
      case (Some dps)
      show ?thesis
      proof (cases "utilization_records ep m dps")
        case (Inl e)
        then show ?thesis using Inr Some stop by (simp add: Let_def)
      next
        case recs: (Inr recs)
        from Cons.IH [of "data @ recs" ?w'] obtain n where
          "fst (utilization_loop client ep var st en p ms (data @ recs) ?w') =
             ?w'\<lparr>stat_calls := stat_calls ?w' @ map (utilization_request ep var st en p) (take n ms)\<rparr>"
          by blast
        then have "fst (utilization_loop client ep var st en p (m # ms) data w) =
             w\<lparr>stat_calls := stat_calls w
                 @ map (utilization_request ep var st en p) (take (Suc n) (m # ms))\<rparr>"
          using Inr Some recs by (simp add: Let_def)
        then show ?thesis by (intro exI [of _ "Suc n"]) simp
      qed
    qed
  qed
qed

lemma invocation_loop_world:
  "\<exists>n. (ms \<noteq> [] \<longrightarrow> 0 < n) \<and>
       fst (invocation_loop client ep var st en p ms data w) =
         w\<lparr>data_calls := data_calls w @ map (invocation_request ep var st en p) (take n ms)\<rparr>"
proof (induction ms arbitrary: data w)
  case Nil
  show ?case by simp
next
  case (Cons m ms)
  let ?w' = "w\<lparr>data_calls := data_calls w @ [invocation_request ep var st en p m]\<rparr>"
  have stop: "\<exists>n. (m # ms \<noteq> [] \<longrightarrow> 0 < n) \<and> ?w' = w\<lparr>data_calls := data_calls w
                 @ map (invocation_request ep var st en p) (take n (m # ms))\<rparr>"
    by (rule exI [of _ 1]) simp
  show ?case
  proof (cases "get_metric_data client (invocation_request ep var st en p m)")
    case (Inl e)
    then show ?thesis using stop by (simp add: Let_def)
  next
    case (Inr response)
    show ?thesis
    proof (cases "response_records ep m response")
      case (Inl e)
      then show ?thesis using Inr stop by (simp add: Let_def)
    next
      case recs: (Inr recs)
      from Cons.IH [of "data @ recs" ?w'] obtain n where
        "fst (invocation_loop client ep var st en p ms (data @ recs) ?w') =
           ?w'\<lparr>data_calls := data_calls ?w' @ map (invocation_request ep var st en p) (take n ms)\<rparr>"
        by blast
      then have "fst (invocation_loop client ep var st en p (m # ms) data w) =
           w\<lparr>data_calls := data_calls w
               @ map (invocation_request ep var st en p) (take (Suc n) (m # ms))\<rparr>"
        using Inr recs by (simp add: Let_def)
      then show ?thesis by (intro exI [of _ "Suc n"]) simp
    qed
  qed
qed

text \<open>A collector adds requests of its own kind, and at most log records, to the world.\<close>

lemma utilization_collector_world:
  "\<exists>n msgs. 0 < n \<and>
     fst (get_endpoint_utilization_metrics client ep var st en p w) =
       w\<lparr>stat_calls := stat_calls w @ map (utilization_request ep var st en p) (take n metrics),
         logged := logged w @ msgs\<rparr>"
proof -
  have "metrics \<noteq> []" by (simp add: metrics_def)
  then obtain n where n: "0 < n" "fst (utilization_loop client ep var st en p metrics [] w) =
      w\<lparr>stat_calls := stat_calls w @ map (utilization_request ep var st en p) (take n metrics)\<rparr>"
    using utilization_loop_world [of metrics client ep var st en p "[]" w] by blast
  obtain w' r where run: "utilization_loop client ep var st en p metrics [] w = (w', r)"
    by (cases "utilization_loop client ep var st en p metrics [] w")
  let ?req = "map (utilization_request ep var st en p) (take n metrics)"
  have w': "w' = w\<lparr>stat_calls := stat_calls w @ ?req\<rparr>"
    using n(2) run by simp
  have "\<exists>msgs. fst (get_endpoint_utilization_metrics client ep var st en p w) =
          w\<lparr>stat_calls := stat_calls w @ ?req, logged := logged w @ msgs\<rparr>"
  proof (cases r)
    case (Inl e)
    then show ?thesis
      unfolding get_endpoint_utilization_metrics_def run w'
      by (intro exI [of _ "[]"]) simp
  next
    case (Inr data)
    show ?thesis
    proof (cases "data = []")
      case True
      then show ?thesis
        unfolding get_endpoint_utilization_metrics_def run w' Inr
        by (intro exI [of _ "[LogWarning (''No utilization datapoints found for '' @ ep @ '' / '' @ var)]"])
           (simp add: warning_def)
    next
      case False
      then show ?thesis
        unfolding get_endpoint_utilization_metrics_def run w' Inr
        by (intro exI [of _ "[]"]) simp
    qed
  qed
  with n(1) show ?thesis by blast
qed

lemma invocation_collector_world:
  "\<exists>n msgs. 0 < n \<and>
     fst (get_endpoint_invocation_metrics client ep var st en p w) =
       w\<lparr>data_calls := data_calls w @ map (invocation_request ep var st en p) (take n metric_names),
         logged := logged w @ msgs\<rparr>"
proof -
  have "metric_names \<noteq> []" by (simp add: metric_names_def)
  then obtain n where n: "0 < n" "fst (invocation_loop client ep var st en p metric_names [] w) =
      w\<lparr>data_calls := data_calls w @ map (invocation_request ep var st en p) (take n metric_names)\<rparr>"
    using invocation_loop_world [of metric_names client ep var st en p "[]" w] by blast
  obtain w' r where run: "invocation_loop client ep var st en p metric_names [] w = (w', r)"
    by (cases "invocation_loop client ep var st en p metric_names [] w")
  let ?req = "map (invocation_request ep var st en p) (take n metric_names)"
  have w': "w' = w\<lparr>data_calls := data_calls w @ ?req\<rparr>"
    using n(2) run by simp
  have "\<exists>msgs. fst (get_endpoint_invocation_metrics client ep var st en p w) =
          w\<lparr>data_calls := data_calls w @ ?req, logged := logged w @ msgs\<rparr>"
  proof (cases r)
    case (Inl e)
    then show ?thesis
      unfolding get_endpoint_invocation_metrics_def run w'
      by (intro exI [of _ "[]"]) simp
  next
    case (Inr data)
    show ?thesis
    proof (cases "data = []")
      case True
      then show ?thesis
        unfolding get_endpoint_invocation_metrics_def run w' Inr
        by (intro exI [of _ "[LogWarning (''No invocation datapoints found for '' @ ep @ '' / '' @ var)]"])
           (simp add: warning_def)
    next
      case False
      then show ?thesis
        unfolding get_endpoint_invocation_metrics_def run w' Inr
        by (intro exI [of _ "[]"]) simp
    qed
  qed
  with n(1) show ?thesis by blast
qed

lemma reconcile_calls:
  "stat_calls (fst (reconcile ep u i w)) = stat_calls w"
  "data_calls (fst (reconcile ep u i w)) = data_calls w"
  by (simp_all add: reconcile_def warning_def)

lemma handler_calls:
  "stat_calls (fst (handler ps e w)) = stat_calls w"
  "data_calls (fst (handler ps e w)) = data_calls w"
  by (simp_all add: handler_def log_error_def)

lemma get_endpoint_metrics_stat_calls:
  "stat_calls (fst (get_endpoint_metrics client ps w)) =
     stat_calls (fst (get_endpoint_utilization_metrics client (endpoint_name ps) (variant_name ps)
        (start_time ps) (end_time ps) (period ps) w))"
proof -
  let ?U = "get_endpoint_utilization_metrics client (endpoint_name ps) (variant_name ps)
        (start_time ps) (end_time ps) (period ps) w"
  obtain w1 r1 where U: "?U = (w1, r1)" by (cases ?U)
  let ?I = "get_endpoint_invocation_metrics client (endpoint_name ps) (variant_name ps)
        (start_time ps) (end_time ps) (period ps) w1"
  obtain w2 r2 where I: "?I = (w2, r2)" by (cases ?I)
  have w2: "stat_calls w2 = stat_calls w1"
    using invocation_collector_world [of client "endpoint_name ps" "variant_name ps"
        "start_time ps" "end_time ps" "period ps" w1] I by auto
  show ?thesis
  proof (cases r1)
    case (Inl e)
    then show ?thesis by (simp add: get_endpoint_metrics_def U handler_calls)
  next
    case u: (Inr u)
    show ?thesis
    proof (cases r2)
      case (Inl e)
      then show ?thesis by (simp add: get_endpoint_metrics_def U u I handler_calls w2)
    next
      case i: (Inr i)
      obtain w3 r3 where R: "reconcile (endpoint_name ps) u i w2 = (w3, r3)"
        by (cases "reconcile (endpoint_name ps) u i w2")
      then have "stat_calls w3 = stat_calls w2"
        using reconcile_calls(1) [of "endpoint_name ps" u i w2] by simp
      then show ?thesis
        by (cases r3) (simp_all add: get_endpoint_metrics_def U u I i R handler_calls w2)
    qed
  qed
qed

subsection \<open>Backends without datapoints\<close>

lemma utilization_loop_no_data:
  "\<forall>m \<in> set ms. get_metric_statistics client (utilization_request ep var st en p m)
      = Inr \<lparr>Datapoints = Some []\<rparr> \<Longrightarrow>
   utilization_loop client ep var st en p ms data w =
     (w\<lparr>stat_calls := stat_calls w @ map (utilization_request ep var st en p) ms\<rparr>, Inr data)"
  by (induction ms arbitrary: data w) (simp_all add: Let_def)

lemma invocation_loop_no_data:
  "\<forall>m \<in> set ms. \<exists>rest. get_metric_data client (invocation_request ep var st en p m)
      = Inr \<lparr>MetricDataResults = Some (\<lparr>Timestamps = Some [], Values = Some []\<rparr> # rest)\<rparr> \<Longrightarrow>
   invocation_loop client ep var st en p ms data w =
     (w\<lparr>data_calls := data_calls w @ map (invocation_request ep var st en p) ms\<rparr>, Inr data)"
proof (induction ms arbitrary: data w)
  case Nil
  show ?case by simp
next
  case (Cons m ms)
  from Cons.prems obtain rest where
    "get_metric_data client (invocation_request ep var st en p m)
      = Inr \<lparr>MetricDataResults = Some (\<lparr>Timestamps = Some [], Values = Some []\<rparr> # rest)\<rparr>"
    by auto
  moreover have "invocation_loop client ep var st en p ms data w' =
     (w'\<lparr>data_calls := data_calls w' @ map (invocation_request ep var st en p) ms\<rparr>, Inr data)"
    for w'
    using Cons.IH [of data w'] Cons.prems by simp
  ultimately show ?case
    by (simp add: Let_def response_records_def)
qed

lemma utilization_collector_no_data:
  assumes "\<forall>m \<in> set metrics. get_metric_statistics client (utilization_request ep var st en p m)
        = Inr \<lparr>Datapoints = Some []\<rparr>"
  shows "get_endpoint_utilization_metrics client ep var st en p w =
        (w\<lparr>stat_calls := stat_calls w @ map (utilization_request ep var st en p) metrics,
           logged := logged w
             @ [LogWarning (''No utilization datapoints found for '' @ ep @ '' / '' @ var)]\<rparr>,
         Inr (DataFrame_columns (key_columns @ metrics)))"
proof -
  have "utilization_loop client ep var st en p metrics [] w =
     (w\<lparr>stat_calls := stat_calls w @ map (utilization_request ep var st en p) metrics\<rparr>, Inr [])"
    using assms by (rule utilization_loop_no_data)
  then show ?thesis
    by (simp add: get_endpoint_utilization_metrics_def warning_def)
qed

lemma invocation_collector_no_data:
  assumes "\<forall>m \<in> set metric_names. \<exists>rest.
          get_metric_data client (invocation_request ep var st en p m)
            = Inr \<lparr>MetricDataResults =
                Some (\<lparr>Timestamps = Some [], Values = Some []\<rparr> # rest)\<rparr>"
  shows "get_endpoint_invocation_metrics client ep var st en p w =
        (w\<lparr>data_calls := data_calls w @ map (invocation_request ep var st en p) metric_names,
           logged := logged w
             @ [LogWarning (''No invocation datapoints found for '' @ ep @ '' / '' @ var)]\<rparr>,
         Inr (DataFrame_columns (key_columns @ metric_names)))"
proof -
  have "invocation_loop client ep var st en p metric_names [] w =
     (w\<lparr>data_calls := data_calls w @ map (invocation_request ep var st en p) metric_names\<rparr>, Inr [])"
    using assms by (rule invocation_loop_no_data)
  then show ?thesis
    by (simp add: get_endpoint_invocation_metrics_def warning_def)
qed

lemma schema_columns:
  "DataFrame_columns (key_columns @ metrics) =
     \<lparr>columns = [''Timestamp'', ''EndpointName'', ''CPUUtilization'', ''MemoryUtilization'',
                 ''DiskUtilization'', ''InferenceLatency'', ''GPUUtilization'',
                 ''GPUMemoryUtilization''],
      rows = []\<rparr>"
  "DataFrame_columns (key_columns @ metric_names) =
     \<lparr>columns = [''Timestamp'', ''EndpointName'', ''Invocations'', ''Invocation4XXErrors'',
                 ''Invocation5XXErrors'', ''ModelLatency'', ''InvocationsPerInstance''],
      rows = []\<rparr>"
  by (simp_all add: DataFrame_columns_def key_columns_def metrics_def metric_names_def)

text \<open>The collectors on the backend \<open>quiet\<close>.\<close>

lemma quiet_utilization:
  "get_endpoint_utilization_metrics quiet ep var st en p w =
        (w\<lparr>stat_calls := stat_calls w @ map (utilization_request ep var st en p) metrics,
           logged := logged w
             @ [LogWarning (''No utilization datapoints found for '' @ ep @ '' / '' @ var)]\<rparr>,
         Inr (DataFrame_columns (key_columns @ metrics)))"
  by (rule utilization_collector_no_data) (simp add: quiet_def)

lemma quiet_invocation:
  "get_endpoint_invocation_metrics quiet ep var st en p w =
        (w\<lparr>data_calls := data_calls w @ map (invocation_request ep var st en p) metric_names,
           logged := logged w
             @ [LogWarning (''No invocation datapoints found for '' @ ep @ '' / '' @ var)]\<rparr>,
         Inr (DataFrame_columns (key_columns @ metric_names)))"
  by (rule invocation_collector_no_data) (simp add: quiet_def)

subsection \<open>The collectors on the example backends\<close>

lemma example_statistics_collector:
  "get_metric_statistics client = example_statistics \<Longrightarrow>
   get_endpoint_utilization_metrics client ''ep-1'' var st en p w =
     (w\<lparr>stat_calls := stat_calls w @ map (utilization_request ''ep-1'' var st en p) metrics\<rparr>,
      Inr example_utilization_df)"
  by (simp add: get_endpoint_utilization_metrics_def metrics_def example_statistics_def
      utilization_request_def UtilizationDatapoint_def Let_def pivot_table_def pivot_cell_def
      group_values_def mean_def key_columns_def example_utilization_df_def)

lemma example_data_collector:
  "get_metric_data client = example_data \<Longrightarrow>
   get_endpoint_invocation_metrics client ''ep-1'' var st en p w =
     (w\<lparr>data_calls := data_calls w @ map (invocation_request ''ep-1'' var st en p) metric_names\<rparr>,
      Inr example_invocation_df)"
  by (simp add: get_endpoint_invocation_metrics_def metric_names_def example_data_def
      invocation_request_def InvocationDatapoint_def response_records_def Let_def
      pivot_table_def pivot_cell_def
      group_values_def mean_def key_columns_def example_invocation_df_def)

lemma quiet_statistics_collector:
  "get_metric_statistics client = get_metric_statistics quiet \<Longrightarrow>
   get_endpoint_utilization_metrics client ep var st en p w =
        (w\<lparr>stat_calls := stat_calls w @ map (utilization_request ep var st en p) metrics,
           logged := logged w
             @ [LogWarning (''No utilization datapoints found for '' @ ep @ '' / '' @ var)]\<rparr>,
         Inr (DataFrame_columns (key_columns @ metrics)))"
  by (rule utilization_collector_no_data) (simp add: quiet_def)

lemma quiet_data_collector:
  "get_metric_data client = get_metric_data quiet \<Longrightarrow>
   get_endpoint_invocation_metrics client ep var st en p w =
        (w\<lparr>data_calls := data_calls w @ map (invocation_request ep var st en p) metric_names,
           logged := logged w
             @ [LogWarning (''No invocation datapoints found for '' @ ep @ '' / '' @ var)]\<rparr>,
         Inr (DataFrame_columns (key_columns @ metric_names)))"
  by (rule invocation_collector_no_data) (simp add: quiet_def)



lemma example_frames_empty:
  "\<not> empty example_utilization_df" "\<not> empty example_invocation_df"
  "empty (DataFrame_columns cs)" "empty DataFrame"
  by (simp_all add: empty_def example_utilization_df_def example_invocation_df_def
      DataFrame_columns_def DataFrame_def)

subsection \<open>The outer join\<close>

lemma side_cells_not_Nil: "side_cells df k \<noteq> []"
  by (simp add: side_cells_def split: list.split)

lemma merge_rows_not_Nil: "merge_rows left right k \<noteq> []"
proof -
  obtain a as where a: "side_cells left k = a # as"
    using side_cells_not_Nil [of left k] by (cases "side_cells left k") auto
  obtain b bs where b: "side_cells right k = b # bs"
    using side_cells_not_Nil [of right k] by (cases "side_cells right k") auto
  show ?thesis by (simp add: merge_rows_def a b)
qed

lemma merge_rows_key: "x \<in> set (merge_rows left right k) \<Longrightarrow> key x = k"
  by (auto simp: merge_rows_def key_def)









lemma join_keys:
  "distinct (join_keys left right)"
  "set (join_keys left right) = key ` set (rows left) \<union> key ` set (rows right)"
  by (simp_all add: join_keys_def)


lemma merged_keys:
  "key ` set (concat (map (merge_rows left right) (join_keys left right)))
     = key ` set (rows left) \<union> key ` set (rows right)"
proof -
  have "key ` set (merge_rows left right k) = {k}" for k
  proof -
    obtain x where "x \<in> set (merge_rows left right k)"
      using merge_rows_not_Nil [of left right k] by (cases "merge_rows left right k") auto
    then show ?thesis using merge_rows_key [of _ left right k] by auto
  qed
  then have "key ` set (concat (map (merge_rows left right) ks)) = set ks" for ks
    by (induction ks) (simp_all add: image_Un)
  from this [of "join_keys left right"] show ?thesis by (simp only: join_keys)
qed






lemma example_reconcile:
  "reconcile ep example_utilization_df example_invocation_df w =
     (w, Inr \<lparr>columns = [''Timestamp'', ''EndpointName'', ''CPUUtilization'', ''Invocations''],
             rows = [\<lparr>Timestamp = 60, EndpointName = ''ep-1'', cells = [Some 42, None]\<rparr>,
                     \<lparr>Timestamp = 120, EndpointName = ''ep-1'', cells = [None, Some 10]\<rparr>]\<rparr>)"
  by (simp add: reconcile_def empty_def merge_outer_def join_keys_def key_def
      merge_rows_def side_cells_def metric_columns_def key_columns_def Let_def
      example_utilization_df_def example_invocation_df_def)

lemma merge_outer_not_empty:
  assumes "merge_outer left right = Inr df" "\<not> empty left"
  shows "\<not> empty df"
proof -
  from assms(1) have df: "df = \<lparr>columns = key_columns
             @ map (\<lambda>c. if c \<in> set (metric_columns right) then c @ ''_x'' else c)
                 (metric_columns left)
             @ map (\<lambda>c. if c \<in> set (metric_columns left) then c @ ''_y'' else c)
                 (metric_columns right),
          rows = concat (map (merge_rows left right) (join_keys left right))\<rparr>"
    by (auto simp: merge_outer_def Let_def split: if_splits)
  from assms(2) obtain x where "x \<in> set (rows left)"
    by (cases "rows left") (auto simp: empty_def)
  then have "key x \<in> key ` set (rows df)"
    unfolding df dataframe.select_convs merged_keys by simp
  then have "rows df \<noteq> []" by auto
  moreover have "columns df \<noteq> []" by (simp add: df key_columns_def)
  ultimately show ?thesis by (simp add: empty_def)
qed

lemma reconcile_result:
  assumes "reconcile ep u i w = (w', Inr df)"
  shows "\<not> empty df \<or> df = DataFrame"
proof (cases "empty u")
  case True
  then show ?thesis using assms by (auto simp: reconcile_def split: if_splits)
next
  case u: False
  show ?thesis
  proof (cases "empty i")
    case True
    then show ?thesis using assms u by (auto simp: reconcile_def)
  next
    case False
    with u assms have "merge_outer u i = Inr df" by (simp add: reconcile_def)
    then show ?thesis using u merge_outer_not_empty by blast
  qed
qed

subsection \<open>What the invocation collector reads of a response\<close>

lemma invocation_loop_cong:
  assumes "\<forall>m \<in> set ms.
     read_data ep m (get_metric_data c1 (invocation_request ep var st en p m))
   = read_data ep m (get_metric_data c2 (invocation_request ep var st en p m))"
  shows "invocation_loop c1 ep var st en p ms data w = invocation_loop c2 ep var st en p ms data w"
  using assms
proof (induction ms arbitrary: data w)
  case Nil
  show ?case by simp
next
  case (Cons m ms)
  let ?q = "invocation_request ep var st en p m"
  have same: "read_data ep m (get_metric_data c1 ?q)
            = read_data ep m (get_metric_data c2 ?q)"
    using Cons.prems by simp
  have rest: "invocation_loop c1 ep var st en p ms data' w' =
              invocation_loop c2 ep var st en p ms data' w'" for data' w'
    using Cons.IH [of data' w'] Cons.prems by simp
  show ?case
  proof (cases "get_metric_data c1 ?q")
    case l1: (Inl e1)
    show ?thesis
    proof (cases "get_metric_data c2 ?q")
      case (Inl e2)
      with l1 same show ?thesis by (simp add: Let_def read_data_def)
    next
      case (Inr r2)
      with l1 same have "response_records ep m r2 = Inl e1" by (simp add: read_data_def)
      with l1 Inr show ?thesis by (simp add: Let_def)
    qed
  next
    case r1: (Inr r1)
    show ?thesis
    proof (cases "get_metric_data c2 ?q")
      case (Inl e2)
      with r1 same have "response_records ep m r1 = Inl e2" by (simp add: read_data_def)
      with r1 Inl show ?thesis by (simp add: Let_def)
    next
      case (Inr r2)
      with r1 same have "response_records ep m r1 = response_records ep m r2"
        by (simp add: read_data_def)
      with r1 Inr rest show ?thesis by (simp add: Let_def split: sum.split)
    qed
  qed
qed

lemma invocation_collector_cong:
  assumes "\<And>m q. read_data ep m (get_metric_data c1 q)
                = read_data ep m (get_metric_data c2 q)"
  shows "get_endpoint_invocation_metrics c1 ep var st en p w =
         get_endpoint_invocation_metrics c2 ep var st en p w"
  using invocation_loop_cong [of metric_names ep c1 var st en p c2 "[]" w] assms
  by (simp add: get_endpoint_invocation_metrics_def)

lemma response_records_first_result:
  "response_records ep m (first_result r) = response_records ep m r"
proof (cases "MetricDataResults r")
  case None
  then show ?thesis by (simp add: response_records_def first_result_def)
next
  case (Some rs)
  then show ?thesis
    by (cases rs) (simp_all add: response_records_def first_result_def)
qed


lemma with_data_collector:
  assumes "\<And>m r. response_records ep m (f r) = response_records ep m r"
  shows "get_endpoint_invocation_metrics (with_data f client) ep var st en p w =
         get_endpoint_invocation_metrics client ep var st en p w"
proof (rule invocation_collector_cong)
  fix m q
  show "read_data ep m (get_metric_data (with_data f client) q)
      = read_data ep m (get_metric_data client q)"
    by (cases "get_metric_data client q") (simp_all add: with_data_def read_data_def assms)
qed

lemma invocation_loop_no_result:
  assumes "m \<in> set ms"
    and "get_metric_data client (invocation_request ep var st en p m)
           = Inr \<lparr>MetricDataResults = Some []\<rparr>"
  shows "\<exists>e. snd (invocation_loop client ep var st en p ms data w) = Inl e"
  using assms(1)
proof (induction ms arbitrary: data w)
  case Nil
  then show ?case by simp
next
  case (Cons m' ms)
  let ?q = "invocation_request ep var st en p m'"
  show ?case
  proof (cases "get_metric_data client ?q")
    case (Inl e)
    then show ?thesis by (simp add: Let_def)
  next
    case (Inr r)
    show ?thesis
    proof (cases "response_records ep m' r")
      case (Inl e)
      with Inr show ?thesis by (simp add: Let_def)
    next
      case recs: (Inr recs)
      have "m' \<noteq> m"
      proof
        assume "m' = m"
        with Inr assms(2) have "r = \<lparr>MetricDataResults = Some []\<rparr>" by simp
        with recs show False by (simp add: response_records_def)
      qed
      with Cons.prems have "m \<in> set ms" by simp
      from Cons.IH [OF this] Inr recs show ?thesis by (simp add: Let_def)
    qed
  qed
qed

lemma invocation_collector_no_result:
  assumes "m \<in> set metric_names"
    and "get_metric_data client (invocation_request ep var st en p m)
           = Inr \<lparr>MetricDataResults = Some []\<rparr>"
  shows "\<exists>e. snd (get_endpoint_invocation_metrics client ep var st en p w) = Inl e"
proof -
  obtain e where "snd (invocation_loop client ep var st en p metric_names [] w) = Inl e"
    using invocation_loop_no_result [OF assms] by blast
  then show ?thesis
    by (cases "invocation_loop client ep var st en p metric_names [] w")
       (simp add: get_endpoint_invocation_metrics_def)
qed

lemma handler_None: "snd (handler ps e w) = None"
  by (simp add: handler_def)

subsection \<open>Valid datapoints\<close>



text \<open>The collectors on the further example backends.\<close>

lemma no_results_collector:
  "get_endpoint_invocation_metrics no_results ep var st en p w =
     (w\<lparr>data_calls := data_calls w @ [invocation_request ep var st en p ''Invocations'']\<rparr>,
      Inl IndexError)"
  by (simp add: get_endpoint_invocation_metrics_def metric_names_def no_results_def Let_def
      response_records_def)

lemma second_result_collector:
  "get_endpoint_invocation_metrics second_result ''ep-1'' var st en p w =
     (w\<lparr>data_calls := data_calls w @ map (invocation_request ''ep-1'' var st en p) metric_names\<rparr>,
      Inr example_invocation_df)"
  by (simp add: get_endpoint_invocation_metrics_def metric_names_def second_result_def
      example_data_def
      invocation_request_def InvocationDatapoint_def response_records_def Let_def
      pivot_table_def pivot_cell_def
      group_values_def mean_def key_columns_def example_invocation_df_def)



subsection \<open>The pivot\<close>







subsection \<open>The collectors on valid datapoints\<close>







subsection \<open>The stages of \<open>get_endpoint_metrics\<close>\<close>

text \<open>How \<open>get_endpoint_metrics\<close> continues after each stage.\<close>

lemma get_endpoint_metrics_utilization_fails:
  assumes "get_endpoint_utilization_metrics client (endpoint_name ps) (variant_name ps)
             (start_time ps) (end_time ps) (period ps) w = (w1, Inl e)"
  shows "get_endpoint_metrics client ps w = handler ps e w1"
  using assms by (simp add: get_endpoint_metrics_def)

lemma get_endpoint_metrics_invocation_fails:
  assumes "get_endpoint_utilization_metrics client (endpoint_name ps) (variant_name ps)
             (start_time ps) (end_time ps) (period ps) w = (w1, Inr u)"
    and "get_endpoint_invocation_metrics client (endpoint_name ps) (variant_name ps)
             (start_time ps) (end_time ps) (period ps) w1 = (w2, Inl e)"
  shows "get_endpoint_metrics client ps w = handler ps e w2"
  using assms by (simp add: get_endpoint_metrics_def)

lemma get_endpoint_metrics_reconciles:
  assumes "get_endpoint_utilization_metrics client (endpoint_name ps) (variant_name ps)
             (start_time ps) (end_time ps) (period ps) w = (w1, Inr u)"
    and "get_endpoint_invocation_metrics client (endpoint_name ps) (variant_name ps)
             (start_time ps) (end_time ps) (period ps) w1 = (w2, Inr i)"
  shows "get_endpoint_metrics client ps w =
     (case reconcile (endpoint_name ps) u i w2 of
        (w3, Inl e) \<Rightarrow> handler ps e w3
      | (w3, Inr df) \<Rightarrow> (w3, Some df))"
  using assms by (simp add: get_endpoint_metrics_def)

lemma get_endpoint_metrics_Some:
  assumes "snd (get_endpoint_metrics client ps w) = Some df"
  shows "\<exists>w1 u w2 i w3.
     get_endpoint_utilization_metrics client (endpoint_name ps) (variant_name ps)
             (start_time ps) (end_time ps) (period ps) w = (w1, Inr u)
   \<and> get_endpoint_invocation_metrics client (endpoint_name ps) (variant_name ps)
             (start_time ps) (end_time ps) (period ps) w1 = (w2, Inr i)
   \<and> reconcile (endpoint_name ps) u i w2 = (w3, Inr df)"
  using assms
  by (auto simp: get_endpoint_metrics_def handler_def split: prod.splits sum.splits)

text \<open>The whole call on the example backends.\<close>

lemma quiet_get_endpoint_metrics:
  "get_endpoint_metrics quiet p0 w0 =
     (\<lparr>stat_calls = map (utilization_request ''ep-1'' ''v1'' 0 300 60) metrics,
       data_calls = map (invocation_request ''ep-1'' ''v1'' 0 300 60) metric_names,
       logged = [LogWarning ''No utilization datapoints found for ep-1 / v1'',
                 LogWarning ''No invocation datapoints found for ep-1 / v1'',
                 LogWarning ''No utilization or invocation metrics found for endpoint=ep-1'']\<rparr>,
      Some \<lparr>columns = [], rows = []\<rparr>)"
proof -
  have p: "endpoint_name p0 = ''ep-1''" "variant_name p0 = ''v1''" "start_time p0 = 0"
    "end_time p0 = 300" "period p0 = 60"
    by (simp_all add: p0_def)
  have r: "reconcile ''ep-1'' (DataFrame_columns (key_columns @ metrics))
      (DataFrame_columns (key_columns @ metric_names)) w =
      (warning (''No utilization or invocation metrics found for endpoint='' @ ''ep-1'') w,
       Inr DataFrame)" for w
    by (simp only: reconcile_def example_frames_empty simp_thms if_True)
  show ?thesis
    unfolding get_endpoint_metrics_def p quiet_utilization quiet_invocation
    by (simp add: r warning_def w0_def DataFrame_def)
qed

lemma example_get_endpoint_metrics:
  "snd (get_endpoint_metrics example p0 w0) =
       Some \<lparr>columns = [''Timestamp'', ''EndpointName'', ''CPUUtilization'', ''Invocations''],
             rows = [\<lparr>Timestamp = 60, EndpointName = ''ep-1'', cells = [Some 42, None]\<rparr>,
                     \<lparr>Timestamp = 120, EndpointName = ''ep-1'', cells = [None, Some 10]\<rparr>]\<rparr>"
proof -
  have p: "endpoint_name p0 = ''ep-1''" "variant_name p0 = ''v1''" "start_time p0 = 0"
    "end_time p0 = 300" "period p0 = 60"
    by (simp_all add: p0_def)
  have s: "get_metric_statistics example = example_statistics"
    and d: "get_metric_data example = example_data"
    by (simp_all add: example_def)
  show ?thesis
    unfolding get_endpoint_metrics_def p example_statistics_collector [OF s]
      example_data_collector [OF d]
    by (simp add: example_reconcile)
qed



text \<open>
  C2. With an empty frame on one side and a non-empty frame X on the other, the result is
  X itself, whichever side is empty: nothing is joined, and get_endpoint_metrics returns
  the non-empty collector's frame unchanged.
\<close>

theorem one_side_empty_returns_other:
  "(empty e \<and> \<not> empty x \<longrightarrow>
      reconcile ep e x w =
        (warning (''No utilization metrics found for endpoint='' @ ep
                    @ '', returning only invocation metrics.'') w, Inr x)
    \<and> reconcile ep x e w =
        (warning (''No invocation metrics found for endpoint='' @ ep
                    @ '', returning only utilization metrics.'') w, Inr x))
   \<and> (get_endpoint_utilization_metrics client (endpoint_name ps) (variant_name ps)
        (start_time ps) (end_time ps) (period ps) w = (w1, Inr u) \<and>
      get_endpoint_invocation_metrics client (endpoint_name ps) (variant_name ps)
        (start_time ps) (end_time ps) (period ps) w1 = (w2, Inr i) \<longrightarrow>
      (empty u \<and> \<not> empty i \<longrightarrow> snd (get_endpoint_metrics client ps w) = Some i) \<and>
      (\<not> empty u \<and> empty i \<longrightarrow> snd (get_endpoint_metrics client ps w) = Some u))"
proof -
  have r: "reconcile ep e x w =
        (warning (''No utilization metrics found for endpoint='' @ ep
                    @ '', returning only invocation metrics.'') w, Inr x)
    \<and> reconcile ep x e w =
        (warning (''No invocation metrics found for endpoint='' @ ep
                    @ '', returning only utilization metrics.'') w, Inr x)"
    if "empty e" "\<not> empty x" for ep e x w
    using that by (simp add: reconcile_def)
  have "snd (get_endpoint_metrics client ps w) = Some i"
    if "get_endpoint_utilization_metrics client (endpoint_name ps) (variant_name ps)
        (start_time ps) (end_time ps) (period ps) w = (w1, Inr u)"
      "get_endpoint_invocation_metrics client (endpoint_name ps) (variant_name ps)
        (start_time ps) (end_time ps) (period ps) w1 = (w2, Inr i)"
      "empty u" "\<not> empty i"
    using r [OF that(3,4), of "endpoint_name ps" w2]
    by (simp add: get_endpoint_metrics_reconciles [OF that(1,2)])
  moreover have "snd (get_endpoint_metrics client ps w) = Some u"
    if "get_endpoint_utilization_metrics client (endpoint_name ps) (variant_name ps)
        (start_time ps) (end_time ps) (period ps) w = (w1, Inr u)"
      "get_endpoint_invocation_metrics client (endpoint_name ps) (variant_name ps)
        (start_time ps) (end_time ps) (period ps) w1 = (w2, Inr i)"
      "\<not> empty u" "empty i"
    using r [OF that(4,3), of "endpoint_name ps" w2]
    by (simp add: get_endpoint_metrics_reconciles [OF that(1,2)])
  ultimately show ?thesis using r [of e x ep w] by blast
qed

theorem one_side_empty_returns_other_witness:
  "empty (DataFrame_columns (key_columns @ metrics)) \<and> empty DataFrame
   \<and> \<not> empty example_invocation_df \<and> \<not> empty example_utilization_df
   \<and> snd (reconcile ''ep-1'' (DataFrame_columns (key_columns @ metrics)) example_invocation_df w0)
       = Inr example_invocation_df
   \<and> snd (reconcile ''ep-1'' example_invocation_df (DataFrame_columns (key_columns @ metrics)) w0)
       = Inr example_invocation_df
   \<and> snd (get_endpoint_utilization_metrics only_invocation ''ep-1'' ''v1'' 0 300 60 w0)
       = Inr (DataFrame_columns (key_columns @ metrics))
   \<and> snd (get_endpoint_metrics only_invocation p0 w0) = Some example_invocation_df
   \<and> snd (get_endpoint_invocation_metrics only_utilization ''ep-1'' ''v1'' 0 300 60 w0)
       = Inr (DataFrame_columns (key_columns @ metric_names))
   \<and> snd (get_endpoint_metrics only_utilization p0 w0) = Some example_utilization_df"
  using one_side_empty_returns_other [where e = "DataFrame_columns (key_columns @ metrics)"
        and x = example_invocation_df and ep = "''ep-1''" and w = w0
        and client = only_invocation and ps = p0
        and u = "DataFrame_columns (key_columns @ metrics)" and i = example_invocation_df
        and ?w1.0 = "fst (get_endpoint_utilization_metrics only_invocation ''ep-1'' ''v1'' 0 300 60 w0)"
        and ?w2.0 = "fst (get_endpoint_invocation_metrics only_invocation ''ep-1'' ''v1'' 0 300 60
          (fst (get_endpoint_utilization_metrics only_invocation ''ep-1'' ''v1'' 0 300 60 w0)))"]
    one_side_empty_returns_other [where e = "DataFrame_columns (key_columns @ metric_names)"
        and x = example_utilization_df and ep = "''ep-1''" and w = w0
        and client = only_utilization and ps = p0
        and u = example_utilization_df and i = "DataFrame_columns (key_columns @ metric_names)"
        and ?w1.0 = "fst (get_endpoint_utilization_metrics only_utilization ''ep-1'' ''v1'' 0 300 60 w0)"
        and ?w2.0 = "fst (get_endpoint_invocation_metrics only_utilization ''ep-1'' ''v1'' 0 300 60
          (fst (get_endpoint_utilization_metrics only_utilization ''ep-1'' ''v1'' 0 300 60 w0)))"]
  by (simp add: p0_def only_invocation_def only_utilization_def example_frames_empty
      quiet_statistics_collector quiet_data_collector example_statistics_collector
      example_data_collector)






text \<open>
  C5. When the backend returns no datapoint for any metric of a collector, the collector
  returns (it does not raise) a frame without rows whose columns are Timestamp,
  EndpointName and the collector's metric names (six for utilization, five for
  invocation), and it logs one warning.
\<close>

theorem empty_backend_gives_schema_frame:
  "((\<forall>m \<in> set metrics. get_metric_statistics client (utilization_request ep var st en p m)
        = Inr \<lparr>Datapoints = Some []\<rparr>) \<longrightarrow>
      get_endpoint_utilization_metrics client ep var st en p w =
        (w\<lparr>stat_calls := stat_calls w @ map (utilization_request ep var st en p) metrics,
           logged := logged w
             @ [LogWarning (''No utilization datapoints found for '' @ ep @ '' / '' @ var)]\<rparr>,
         Inr \<lparr>columns = [''Timestamp'', ''EndpointName'', ''CPUUtilization'',
                         ''MemoryUtilization'', ''DiskUtilization'', ''InferenceLatency'',
                         ''GPUUtilization'', ''GPUMemoryUtilization''],
              rows = []\<rparr>))
   \<and> ((\<forall>m \<in> set metric_names. \<exists>rest.
          get_metric_data client (invocation_request ep var st en p m)
            = Inr \<lparr>MetricDataResults =
                Some (\<lparr>Timestamps = Some [], Values = Some []\<rparr> # rest)\<rparr>) \<longrightarrow>
      get_endpoint_invocation_metrics client ep var st en p w =
        (w\<lparr>data_calls := data_calls w @ map (invocation_request ep var st en p) metric_names,
           logged := logged w
             @ [LogWarning (''No invocation datapoints found for '' @ ep @ '' / '' @ var)]\<rparr>,
         Inr \<lparr>columns = [''Timestamp'', ''EndpointName'', ''Invocations'',
                         ''Invocation4XXErrors'', ''Invocation5XXErrors'', ''ModelLatency'',
                         ''InvocationsPerInstance''],
              rows = []\<rparr>))"
  using utilization_collector_no_data [of client ep var st en p w]
    invocation_collector_no_data [of client ep var st en p w]
  by (simp only: schema_columns) blast

theorem empty_backend_gives_schema_frame_witness:
  "snd (get_endpoint_utilization_metrics quiet ''ep-1'' ''v1'' 0 300 60 w0) =
     Inr \<lparr>columns = [''Timestamp'', ''EndpointName'', ''CPUUtilization'',
                     ''MemoryUtilization'', ''DiskUtilization'', ''InferenceLatency'',
                     ''GPUUtilization'', ''GPUMemoryUtilization''],
          rows = []\<rparr>
   \<and> logged (fst (get_endpoint_utilization_metrics quiet ''ep-1'' ''v1'' 0 300 60 w0)) =
       [LogWarning ''No utilization datapoints found for ep-1 / v1'']
   \<and> snd (get_endpoint_invocation_metrics quiet ''ep-1'' ''v1'' 0 300 60 w0) =
     Inr \<lparr>columns = [''Timestamp'', ''EndpointName'', ''Invocations'',
                     ''Invocation4XXErrors'', ''Invocation5XXErrors'', ''ModelLatency'',
                     ''InvocationsPerInstance''],
          rows = []\<rparr>
   \<and> logged (fst (get_endpoint_invocation_metrics quiet ''ep-1'' ''v1'' 0 300 60 w0)) =
       [LogWarning ''No invocation datapoints found for ep-1 / v1'']"
  using empty_backend_gives_schema_frame [of quiet "''ep-1''" "''v1''" 0 300 60 w0]
  by (simp add: quiet_def w0_def)

text \<open>
  C6. The statistic of a query is fixed by the metric name: every data query the invocation
  collector sends asks for "Average" when the metric is ModelLatency and for "Sum"
  otherwise (Invocations, Invocation4XXErrors, Invocation5XXErrors,
  InvocationsPerInstance), and every statistics query the utilization collector sends asks
  for "Average".
\<close>

theorem statistic_per_metric:
  "(\<forall>q \<in> set (drop (length (data_calls w))
               (data_calls (fst (get_endpoint_invocation_metrics client ep var st en p w)))).
      MetricName q \<in> set metric_names \<and>
      Stat q = (if MetricName q = ''ModelLatency'' then ''Average'' else ''Sum''))
   \<and> (\<forall>q \<in> set (drop (length (stat_calls w))
               (stat_calls (fst (get_endpoint_utilization_metrics client ep var st en p w)))).
      MetricName q \<in> set metrics \<and> Statistics q = [''Average''])
   \<and> Stat (invocation_request ep var st en p ''ModelLatency'') = ''Average''
   \<and> Stat (invocation_request ep var st en p ''Invocations'') = ''Sum''
   \<and> Stat (invocation_request ep var st en p ''Invocation4XXErrors'') = ''Sum''
   \<and> Stat (invocation_request ep var st en p ''Invocation5XXErrors'') = ''Sum''
   \<and> Stat (invocation_request ep var st en p ''InvocationsPerInstance'') = ''Sum''"
proof -
  obtain n msgs where n: "fst (get_endpoint_invocation_metrics client ep var st en p w) =
       w\<lparr>data_calls := data_calls w @ map (invocation_request ep var st en p) (take n metric_names),
         logged := logged w @ msgs\<rparr>"
    using invocation_collector_world by blast
  obtain k msgs' where k: "fst (get_endpoint_utilization_metrics client ep var st en p w) =
       w\<lparr>stat_calls := stat_calls w @ map (utilization_request ep var st en p) (take k metrics),
         logged := logged w @ msgs'\<rparr>"
    using utilization_collector_world by blast
  have inv: "MetricName q \<in> set metric_names \<and>
      Stat q = (if MetricName q = ''ModelLatency'' then ''Average'' else ''Sum'')"
    if "q \<in> set (map (invocation_request ep var st en p) (take n metric_names))" for q
  proof -
    from that obtain m where "m \<in> set (take n metric_names)" "q = invocation_request ep var st en p m"
      by auto
    then show ?thesis
      using in_set_takeD [of m n metric_names] by (simp add: invocation_request_def)
  qed
  have util: "MetricName q \<in> set metrics \<and> Statistics q = [''Average'']"
    if "q \<in> set (map (utilization_request ep var st en p) (take k metrics))" for q
  proof -
    from that obtain m where "m \<in> set (take k metrics)" "q = utilization_request ep var st en p m"
      by auto
    then show ?thesis
      using in_set_takeD [of m k metrics] by (simp add: utilization_request_def)
  qed
  show ?thesis
    using inv util by (simp add: n k invocation_request_def)
qed

theorem statistic_per_metric_witness:
  "map Stat (data_calls (fst (get_endpoint_invocation_metrics quiet ''ep-1'' ''v1'' 0 300 60 w0)))
     = [''Sum'', ''Sum'', ''Sum'', ''Average'', ''Sum'']
   \<and> map Statistics (stat_calls (fst (get_endpoint_utilization_metrics quiet ''ep-1'' ''v1'' 0 300 60 w0)))
     = [[''Average''], [''Average''], [''Average''], [''Average''], [''Average''],
         [''Average'']]"
  using statistic_per_metric [of w0 quiet "''ep-1''" "''v1''" 0 300 60]
  by (simp add: quiet_utilization quiet_invocation w0_def metric_names_def metrics_def
      invocation_request_def utilization_request_def)

text \<open>
  C7 (as stated, refuted). On the backend without datapoints both collectors return their
  rowless frames with the fixed columns, and get_endpoint_metrics returns a frame that has
  no column at all.
\<close>

theorem both_empty_counterexample:
  "snd (get_endpoint_utilization_metrics quiet ''ep-1'' ''v1'' 0 300 60 w0) =
     Inr \<lparr>columns = [''Timestamp'', ''EndpointName'', ''CPUUtilization'',
                     ''MemoryUtilization'', ''DiskUtilization'', ''InferenceLatency'',
                     ''GPUUtilization'', ''GPUMemoryUtilization''],
          rows = []\<rparr>
   \<and> snd (get_endpoint_invocation_metrics quiet ''ep-1'' ''v1'' 0 300 60
        (fst (get_endpoint_utilization_metrics quiet ''ep-1'' ''v1'' 0 300 60 w0))) =
     Inr \<lparr>columns = [''Timestamp'', ''EndpointName'', ''Invocations'',
                     ''Invocation4XXErrors'', ''Invocation5XXErrors'', ''ModelLatency'',
                     ''InvocationsPerInstance''],
          rows = []\<rparr>
   \<and> snd (get_endpoint_metrics quiet p0 w0) = Some \<lparr>columns = [], rows = []\<rparr>
   \<and> ''Timestamp'' \<notin> set (columns (the (snd (get_endpoint_metrics quiet p0 w0))))"
  by (simp add: quiet_get_endpoint_metrics quiet_utilization quiet_invocation schema_columns)

text \<open>
  C7 (amended). When both collectors return empty frames, get_endpoint_metrics logs a
  warning and returns the frame without columns and without rows; a successful result is
  always either non-empty or that column-less frame.
\<close>

theorem both_empty_gives_bare_frame:
  "(get_endpoint_utilization_metrics client (endpoint_name ps) (variant_name ps)
        (start_time ps) (end_time ps) (period ps) w = (w1, Inr u) \<and>
      get_endpoint_invocation_metrics client (endpoint_name ps) (variant_name ps)
        (start_time ps) (end_time ps) (period ps) w1 = (w2, Inr i) \<and>
      empty u \<and> empty i \<longrightarrow>
      get_endpoint_metrics client ps w =
        (warning (''No utilization or invocation metrics found for endpoint=''
                    @ endpoint_name ps) w2,
         Some \<lparr>columns = [], rows = []\<rparr>))
   \<and> (snd (get_endpoint_metrics client ps w) = Some df \<longrightarrow>
        \<not> empty df \<or> df = \<lparr>columns = [], rows = []\<rparr>)"
proof (intro conjI impI)
  assume a: "get_endpoint_utilization_metrics client (endpoint_name ps) (variant_name ps)
        (start_time ps) (end_time ps) (period ps) w = (w1, Inr u) \<and>
      get_endpoint_invocation_metrics client (endpoint_name ps) (variant_name ps)
        (start_time ps) (end_time ps) (period ps) w1 = (w2, Inr i) \<and>
      empty u \<and> empty i"
  then have "reconcile (endpoint_name ps) u i w2 =
      (warning (''No utilization or invocation metrics found for endpoint=''
                    @ endpoint_name ps) w2, Inr DataFrame)"
    by (simp add: reconcile_def)
  with a show "get_endpoint_metrics client ps w =
        (warning (''No utilization or invocation metrics found for endpoint=''
                    @ endpoint_name ps) w2,
         Some \<lparr>columns = [], rows = []\<rparr>)"
    by (simp add: get_endpoint_metrics_reconciles DataFrame_def)
next
  assume "snd (get_endpoint_metrics client ps w) = Some df"
  then obtain u i w2 w3 where "reconcile (endpoint_name ps) u i w2 = (w3, Inr df)"
    using get_endpoint_metrics_Some by blast
  then show "\<not> empty df \<or> df = \<lparr>columns = [], rows = []\<rparr>"
    using reconcile_result [of "endpoint_name ps" u i w2 w3 df] by (simp add: DataFrame_def)
qed

theorem both_empty_gives_bare_frame_witness:
  "empty (DataFrame_columns (key_columns @ metrics))
   \<and> empty (DataFrame_columns (key_columns @ metric_names))
   \<and> snd (get_endpoint_metrics quiet p0 w0) = Some \<lparr>columns = [], rows = []\<rparr>
   \<and> logged (fst (get_endpoint_metrics quiet p0 w0)) =
       [LogWarning ''No utilization datapoints found for ep-1 / v1'',
        LogWarning ''No invocation datapoints found for ep-1 / v1'',
        LogWarning ''No utilization or invocation metrics found for endpoint=ep-1'']
   \<and> snd (get_endpoint_metrics example p0 w0) =
       Some \<lparr>columns = [''Timestamp'', ''EndpointName'', ''CPUUtilization'', ''Invocations''],
             rows = [\<lparr>Timestamp = 60, EndpointName = ''ep-1'', cells = [Some 42, None]\<rparr>,
                     \<lparr>Timestamp = 120, EndpointName = ''ep-1'', cells = [None, Some 10]\<rparr>]\<rparr>
   \<and> \<not> empty \<lparr>columns = [''Timestamp'', ''EndpointName'', ''CPUUtilization'', ''Invocations''],
             rows = [\<lparr>Timestamp = 60, EndpointName = ''ep-1'', cells = [Some 42, None]\<rparr>,
                     \<lparr>Timestamp = 120, EndpointName = ''ep-1'', cells = [None, Some 10]\<rparr>]\<rparr>"
proof -
  have p: "endpoint_name p0 = ''ep-1''" "variant_name p0 = ''v1''" "start_time p0 = 0"
    "end_time p0 = 300" "period p0 = 60"
    by (simp_all add: p0_def)
  note t = both_empty_gives_bare_frame [where client = quiet and ps = p0 and w = w0
      and u = "DataFrame_columns (key_columns @ metrics)"
      and i = "DataFrame_columns (key_columns @ metric_names)"
      and ?w1.0 = "fst (get_endpoint_utilization_metrics quiet ''ep-1'' ''v1'' 0 300 60 w0)"
      and ?w2.0 = "fst (get_endpoint_invocation_metrics quiet ''ep-1'' ''v1'' 0 300 60
          (fst (get_endpoint_utilization_metrics quiet ''ep-1'' ''v1'' 0 300 60 w0)))"
      and df = "\<lparr>columns = [], rows = []\<rparr>", unfolded p]
  have e: "empty (DataFrame_columns (key_columns @ metrics))"
    "empty (DataFrame_columns (key_columns @ metric_names))"
    by (rule example_frames_empty)+
  have n: "\<not> empty \<lparr>columns = [''Timestamp'', ''EndpointName'', ''CPUUtilization'', ''Invocations''],
             rows = [\<lparr>Timestamp = 60, EndpointName = ''ep-1'', cells = [Some 42, None]\<rparr>,
                     \<lparr>Timestamp = 120, EndpointName = ''ep-1'', cells = [None, Some 10]\<rparr>]\<rparr>"
    by (simp add: empty_def)
  have q: "snd (get_endpoint_metrics quiet p0 w0) = Some \<lparr>columns = [], rows = []\<rparr>"
    using t by (simp add: quiet_utilization quiet_invocation e)
  have l: "logged (fst (get_endpoint_metrics quiet p0 w0)) =
       [LogWarning ''No utilization datapoints found for ep-1 / v1'',
        LogWarning ''No invocation datapoints found for ep-1 / v1'',
        LogWarning ''No utilization or invocation metrics found for endpoint=ep-1'']"
    by (simp add: quiet_get_endpoint_metrics)
  show ?thesis
    using e n q l example_get_endpoint_metrics by simp
qed




text \<open>
  C9. The invocation collector reads the first element of MetricDataResults only: further
  elements of the list do not change what it returns. When the list of a response is
  empty the index access raises IndexError, and get_endpoint_metrics returns None.
\<close>

theorem only_first_result_is_read:
  "response_records ep m \<lparr>MetricDataResults = Some (result # rest)\<rparr>
     = response_records ep m \<lparr>MetricDataResults = Some [result]\<rparr>
   \<and> get_endpoint_invocation_metrics (with_data first_result client) ep var st en p w
     = get_endpoint_invocation_metrics client ep var st en p w
   \<and> response_records ep m \<lparr>MetricDataResults = Some []\<rparr> = Inl IndexError
   \<and> ((\<exists>n \<in> set metric_names.
          get_metric_data client (invocation_request (endpoint_name ps) (variant_name ps)
            (start_time ps) (end_time ps) (period ps) n) = Inr \<lparr>MetricDataResults = Some []\<rparr>)
        \<longrightarrow> snd (get_endpoint_metrics client ps w) = None)"
proof (intro conjI impI)
  show "response_records ep m \<lparr>MetricDataResults = Some (result # rest)\<rparr>
     = response_records ep m \<lparr>MetricDataResults = Some [result]\<rparr>"
    by (simp add: response_records_def)
  show "get_endpoint_invocation_metrics (with_data first_result client) ep var st en p w
     = get_endpoint_invocation_metrics client ep var st en p w"
    by (rule with_data_collector) (rule response_records_first_result)
  show "response_records ep m \<lparr>MetricDataResults = Some []\<rparr> = Inl IndexError"
    by (simp add: response_records_def)
next
  let ?U = "get_endpoint_utilization_metrics client (endpoint_name ps) (variant_name ps)
        (start_time ps) (end_time ps) (period ps) w"
  assume "\<exists>n \<in> set metric_names.
          get_metric_data client (invocation_request (endpoint_name ps) (variant_name ps)
            (start_time ps) (end_time ps) (period ps) n) = Inr \<lparr>MetricDataResults = Some []\<rparr>"
  then obtain n where n: "n \<in> set metric_names"
    "get_metric_data client (invocation_request (endpoint_name ps) (variant_name ps)
            (start_time ps) (end_time ps) (period ps) n) = Inr \<lparr>MetricDataResults = Some []\<rparr>"
    by blast
  obtain w1 r1 where U: "?U = (w1, r1)" by (cases ?U)
  show "snd (get_endpoint_metrics client ps w) = None"
  proof (cases r1)
    case (Inl e)
    with U show ?thesis
      by (simp add: get_endpoint_metrics_utilization_fails handler_None)
  next
    case (Inr u)
    let ?I = "get_endpoint_invocation_metrics client (endpoint_name ps) (variant_name ps)
        (start_time ps) (end_time ps) (period ps) w1"
    obtain e where "snd ?I = Inl e"
      using invocation_collector_no_result [OF n] by blast
    then obtain w2 where "?I = (w2, Inl e)" by (cases ?I) simp
    with U Inr show ?thesis
      by (simp add: get_endpoint_metrics_invocation_fails handler_None)
  qed
qed

theorem only_first_result_is_read_witness:
  "get_metric_data second_result (invocation_request ''ep-1'' ''v1'' 0 300 60 ''Invocations'')
     = Inr \<lparr>MetricDataResults =
         Some [\<lparr>Timestamps = Some [Valid 120], Values = Some [Valid 10]\<rparr>,
               \<lparr>Timestamps = Some [Valid 180, Invalid], Values = None\<rparr>]\<rparr>
   \<and> snd (get_endpoint_invocation_metrics second_result ''ep-1'' ''v1'' 0 300 60 w0)
     = Inr example_invocation_df
   \<and> snd (get_endpoint_invocation_metrics (with_data first_result second_result)
             ''ep-1'' ''v1'' 0 300 60 w0)
     = Inr example_invocation_df
   \<and> ''Invocations'' \<in> set metric_names
   \<and> get_metric_data no_results (invocation_request ''ep-1'' ''v1'' 0 300 60 ''Invocations'')
     = Inr \<lparr>MetricDataResults = Some []\<rparr>
   \<and> snd (get_endpoint_invocation_metrics no_results ''ep-1'' ''v1'' 0 300 60 w0)
     = Inl IndexError
   \<and> snd (get_endpoint_metrics no_results p0 w0) = None"
proof -
  have p: "endpoint_name p0 = ''ep-1''" "variant_name p0 = ''v1''" "start_time p0 = 0"
    "end_time p0 = 300" "period p0 = 60"
    by (simp_all add: p0_def)
  note t = only_first_result_is_read [where client = second_result and ep = "''ep-1''"
      and var = "''v1''" and st = 0 and en = 300 and p = 60 and w = w0]
  note n = only_first_result_is_read [where client = no_results and ps = p0 and w = w0,
      unfolded p]
  have a: "get_metric_data second_result (invocation_request ''ep-1'' ''v1'' 0 300 60 ''Invocations'')
     = Inr \<lparr>MetricDataResults =
         Some [\<lparr>Timestamps = Some [Valid 120], Values = Some [Valid 10]\<rparr>,
               \<lparr>Timestamps = Some [Valid 180, Invalid], Values = None\<rparr>]\<rparr>"
    by (simp add: second_result_def example_data_def invocation_request_def)
  have b: "''Invocations'' \<in> set metric_names"
    by (simp add: metric_names_def)
  have c: "get_metric_data no_results (invocation_request ''ep-1'' ''v1'' 0 300 60 ''Invocations'')
     = Inr \<lparr>MetricDataResults = Some []\<rparr>"
    by (simp add: no_results_def)
  have d: "snd (get_endpoint_metrics no_results p0 w0) = None"
    using n b c by blast
  have e: "snd (get_endpoint_invocation_metrics (with_data first_result second_result)
             ''ep-1'' ''v1'' 0 300 60 w0) = Inr example_invocation_df"
    using t by (simp add: second_result_collector)
  show ?thesis
    using a b c d e by (simp add: second_result_collector no_results_collector)
qed

text \<open>
  C10. Constructing EndpointMetricParams succeeds for every pair of datetimes and every
  integer period: start_time and end_time are not compared and the sign of period is not
  checked; an omitted period is 60. The parameters reach the collectors as they are: the
  first statistics query carries them.
\<close>

theorem params_not_validated:
  "EndpointMetricParams (Valid ep) (Valid var) (Valid st) (Valid en) (Valid p) =
     Inr \<lparr>endpoint_name = ep, variant_name = var, start_time = st, end_time = en, period = p\<rparr>
   \<and> EndpointMetricParams (Valid ep) (Valid var) (Valid st) (Valid en) Missing =
     Inr \<lparr>endpoint_name = ep, variant_name = var, start_time = st, end_time = en, period = 60\<rparr>
   \<and> take (Suc (length (stat_calls w)))
       (stat_calls (fst (get_endpoint_metrics client
          \<lparr>endpoint_name = ep, variant_name = var, start_time = st, end_time = en, period = p\<rparr> w)))
     = stat_calls w @ [utilization_request ep var st en p ''CPUUtilization'']"
proof -
  obtain n msgs where n: "0 < n"
    "fst (get_endpoint_utilization_metrics client ep var st en p w) =
       w\<lparr>stat_calls := stat_calls w @ map (utilization_request ep var st en p) (take n metrics),
         logged := logged w @ msgs\<rparr>"
    using utilization_collector_world by blast
  from n(1) obtain k where k: "n = Suc k" by (cases n) simp_all
  have "take (Suc (length (stat_calls w)))
       (stat_calls (fst (get_endpoint_metrics client
          \<lparr>endpoint_name = ep, variant_name = var, start_time = st, end_time = en, period = p\<rparr> w)))
     = stat_calls w @ [utilization_request ep var st en p ''CPUUtilization'']"
    by (simp add: get_endpoint_metrics_stat_calls n(2) k metrics_def)
  then show ?thesis
    by (simp add: EndpointMetricParams_def)
qed

theorem params_not_validated_witness:
  "EndpointMetricParams (Valid ''ep-1'') (Valid ''v1'') (Valid 300) (Valid 0) (Valid (- 5)) =
     Inr \<lparr>endpoint_name = ''ep-1'', variant_name = ''v1'', start_time = 300, end_time = 0,
          period = - 5\<rparr>
   \<and> EndpointMetricParams (Valid ''ep-1'') (Valid ''v1'') (Valid 300) (Valid 0) Missing =
     Inr \<lparr>endpoint_name = ''ep-1'', variant_name = ''v1'', start_time = 300, end_time = 0,
          period = 60\<rparr>
   \<and> take 1 (stat_calls (fst (get_endpoint_metrics quiet
          \<lparr>endpoint_name = ''ep-1'', variant_name = ''v1'', start_time = 300, end_time = 0,
           period = - 5\<rparr> w0)))
     = [\<lparr>Namespace = ''/aws/sagemaker/Endpoints'', MetricName = ''CPUUtilization'',
         Dimensions = [(''EndpointName'', ''ep-1''), (''VariantName'', ''v1'')],
         StartTime = 300, EndTime = 0, Period = - 5, Statistics = [''Average'']\<rparr>]"
  using params_not_validated [of "''ep-1''" "''v1''" 300 0 "- 5" w0 quiet]
  by (simp add: w0_def utilization_request_def dimensions_def)

end
